theory Spec2Isabelle
  imports Main "HOL-Library.Word"
begin

unbundle bit_operations_syntax

section \<open>Data model of CPUTune.cpp\<close>

type_synonym u64 = "64 word"
type_synonym u32 = "32 word"

text \<open>
  The five model-specific registers the driver touches. The numeric addresses come from
  headers; only their being distinct matters here.
\<close>

datatype msr =
    MSR_IA32_MISC_ENABLE
  | MSR_IA32_PERF_CTL
  | MSR_IA32_POWER_CTL
  | MSR_IA32_PM_ENABLE
  | MSR_IA32_HWP_REQUEST

text \<open>
  Everything the driver does to the outside world, in program order: register reads and
  writes, reads of the runtime files (path, bytes requested, buffer returned), log lines
  (the format string of the \<open>myLOG\<close> call; its arguments are left out), timer arming and
  the remaining framework calls.
\<close>

datatype event =
    Rdmsr msr u64
  | Wrmsr msr u64
  | ReadFile string nat "string option"
  | Log string
  | SetTimeoutMS u32
  | CancelTimeout
  | Framework string

text \<open>
  The bit masks are constants of CPUTune.hpp, which is not part of the sources at hand;
  they are a parameter of every operation that uses them.
\<close>

record masks =
  kEnableTurboBoostBits :: u64
  kDisableTurboBoostBits :: u64
  kEnableProcHotBit :: u64
  kDisableProcHotBit :: u64
  kEnableSpeedShiftBit :: u64
  kDisableSpeedShiftBit :: u64

text \<open>
  Modelled from the spec: the values of the mask constants of CPUTune.hpp, which is
  missing. The spec names bit 38 of MISC_ENABLE as the turbo disable bit (the source
  comments say "flip bit 38 to 0" for the enable mask and "flip bit 38 to 1" for the
  disable mask), a single ProcHot bit of POWER_CTL and a single enable bit of PM_ENABLE
  with "the complementary clear pattern" for disabling. Used for concrete inputs only.
\<close>

definition spec_masks :: masks where
  "spec_masks =
     \<lparr> kEnableTurboBoostBits = NOT (push_bit 38 1),
       kDisableTurboBoostBits = push_bit 38 1,
       kEnableProcHotBit = 1,
       kDisableProcHotBit = NOT 1,
       kEnableSpeedShiftBit = 1,
       kDisableSpeedShiftBit = 0 \<rparr>"

text \<open>The property dictionary of the kext, as \<open>init\<close> looks it up.\<close>

record properties =
  prop_ProcHotAtRuntime :: "string option"
  prop_TurboBoostAtRuntime :: "string option"
  prop_SpeedShiftAtRuntime :: "string option"
  prop_HWPRequestConfigPath :: "string option"
  prop_EnableTurboBoost :: "bool option"
  prop_EnableProcHot :: "bool option"
  prop_EnableSpeedShift :: "bool option"
  prop_AllowUnrestrictedFS :: "bool option"
  prop_UpdateInterval :: "u32 option"

text \<open>What the surrounding framework answers during \<open>init\<close> and \<open>start\<close>.\<close>

record host =
  kernelUnsupported :: bool
  bootargBetaSet :: bool
  kextPanicLastBoot :: bool
  bootarg_s :: bool
  bootarg_x :: bool
  bootargOffSet :: bool
  superInitOk :: bool
  superStartOk :: bool
  providerPresent :: bool
  timerCreated :: bool
  eventSourceAdded :: bool

text \<open>
  The machine registers, the trace of effects, and the member variables of the
  \<open>CPUTune\<close> object (\<open>supportedHWP\<close> is \<open>cpu_info.supportedHWP\<close>; \<open>timerSource\<close>
  records whether the pointer is non-null). A path that is \<open>nullptr\<close> is \<open>None\<close>.
  Every write the program issues is in the trace; what a register holds afterwards is
  decided by \<open>hw_store\<close> below.
\<close>

record cputune =
  msrs :: "msr \<Rightarrow> u64"
  trace :: "event list"
  ProcHotPath :: "string option"
  turboBoostPath :: "string option"
  speedShiftPath :: "string option"
  hwpRequestConfigPath :: "string option"
  enableIntelTurboBoost :: bool
  enableIntelProcHot :: bool
  enableIntelSpeedShift :: bool
  allowUnrestrictedFS :: bool
  updateInterval :: u32
  supportedHWP :: bool
  hwpEnableOnceSet :: bool
  timerSource :: bool
  org_MSR_IA32_MISC_ENABLE :: u64
  org_MSR_IA32_PERF_CTL :: u64
  org_MSR_IA32_POWER_CTL :: u64
  org_MSR_IA32_PM_ENABLE :: u64
  org_HWPRequest :: u64

text \<open>The runtime files: the content behind a path, \<open>None\<close> when it cannot be read.\<close>

type_synonym files = "string \<Rightarrow> string option"

section \<open>Primitive effects\<close>

definition emit :: "event \<Rightarrow> cputune \<Rightarrow> cputune" where
  "emit e s = s\<lparr>trace := trace s @ [e]\<rparr>"

definition myLOG :: "string \<Rightarrow> cputune \<Rightarrow> cputune" where
  "myLOG fmt s = emit (Log fmt) s"

definition rdmsr64 :: "msr \<Rightarrow> cputune \<Rightarrow> u64 \<times> cputune" where
  "rdmsr64 m s = (msrs s m, emit (Rdmsr m (msrs s m)) s)"

text \<open>
  Modelled from the spec: what the processor keeps of a write. The enable bit of
  PM_ENABLE is a latch: "once set, writes to the HWP_ENABLE bit are ignored. Only RESET
  will clear this bit" (the comment in \<open>start\<close>), "a hardware bit that, once set, cannot
  be cleared by software" (the glossary of the spec). The bit is the one the constant
  \<open>kEnableSpeedShiftBit\<close> names, which is why the masks are a parameter here. So a write
  to PM_ENABLE stores the value written together with the enable bits that were already
  set; every other register stores the value as written.
\<close>

definition hw_store :: "masks \<Rightarrow> msr \<Rightarrow> u64 \<Rightarrow> u64 \<Rightarrow> u64" where
  "hw_store k m old v =
     (if m = MSR_IA32_PM_ENABLE then v OR (old AND kEnableSpeedShiftBit k) else v)"

definition wrmsr64 :: "masks \<Rightarrow> msr \<Rightarrow> u64 \<Rightarrow> cputune \<Rightarrow> cputune" where
  "wrmsr64 k m v s =
     emit (Wrmsr m v) (s\<lparr>msrs := (msrs s)(m := hw_store k m (msrs s m) v)\<rparr>)"

definition setTimeoutMS :: "u32 \<Rightarrow> cputune \<Rightarrow> cputune" where
  "setTimeoutMS ms s = emit (SetTimeoutMS ms) s"

text \<open>
  Modelled from the spec: \<open>readFileNBytes\<close> (kern_util) is missing. The spec has it as a
  bounded read that yields at most the requested number of bytes, or a null buffer when
  the source cannot be read.
\<close>

definition readFileNBytes :: "files \<Rightarrow> string \<Rightarrow> nat \<Rightarrow> nat \<Rightarrow> cputune \<Rightarrow> string option \<times> cputune" where
  "readFileNBytes fs path off bytes s =
     (let buffer = map_option (\<lambda>content. take bytes (drop off content)) (fs path)
      in (buffer, emit (ReadFile path bytes buffer) s))"

text \<open>
  The test \<open>buffer && (*buffer == '1')\<close> of the three boolean features. A buffer that
  holds no byte is read as not being '1'.
\<close>

definition requestsEnable :: "string option \<Rightarrow> bool" where
  "requestsEnable buffer =
     (case buffer of None \<Rightarrow> False | Some [] \<Rightarrow> False | Some (c # cs) \<Rightarrow> c = CHR ''1'')"

definition ERANGE :: u64 where
  "ERANGE = 34"

definition hexDigit :: "char \<Rightarrow> nat option" where
  "hexDigit c =
     (let n = (of_char c :: nat)
      in if 48 \<le> n \<and> n \<le> 57 then Some (n - 48)
         else if 97 \<le> n \<and> n \<le> 102 then Some (n - 87)
         else if 65 \<le> n \<and> n \<le> 70 then Some (n - 55)
         else None)"

fun hexValue :: "nat \<Rightarrow> string \<Rightarrow> nat option" where
  "hexValue acc [] = Some acc"
| "hexValue acc (c # cs) =
     (case hexDigit c of None \<Rightarrow> None | Some d \<Rightarrow> hexValue (16 * acc + d) cs)"

text \<open>
  Modelled from the spec: \<open>hexToInt\<close> (kern_util) is missing. The spec has the content
  "interpreted as a hexadecimal integer literal", with non-hex content and overflow as
  parse failures; the caller in \<open>readConfigAtRuntime\<close> recognises a failure by the
  result \<open>ERANGE\<close>. The result is a C \<open>long\<close>, kept as its 64-bit pattern.
\<close>

definition hexToInt :: "string \<Rightarrow> u64" where
  "hexToInt hex =
     (if hex = [] then ERANGE
      else case hexValue 0 hex of
             None \<Rightarrow> ERANGE
           | Some n \<Rightarrow> if n < 2 ^ 63 then of_nat n else ERANGE)"

section \<open>Register operations\<close>

text \<open>
  \<open>setIfNotEqual\<close>; the masks are passed on to \<open>wrmsr64\<close> for the processor's part and
  play no role in the decision.
\<close>

definition setIfNotEqual :: "masks \<Rightarrow> u64 \<Rightarrow> u64 \<Rightarrow> msr \<Rightarrow> cputune \<Rightarrow> bool \<times> cputune" where
  "setIfNotEqual k current expect m s =
     (let needWrite = (current \<noteq> expect)
      in (needWrite, if needWrite then wrmsr64 k m expect s else s))"

definition enableTurboBoost :: "masks \<Rightarrow> cputune \<Rightarrow> cputune" where
  "enableTurboBoost k s =
     (let (cur, s1) = rdmsr64 MSR_IA32_MISC_ENABLE s;
          val = cur AND kEnableTurboBoostBits k;
          (wrote, s2) = setIfNotEqual k cur val MSR_IA32_MISC_ENABLE s1
      in if wrote
         then myLOG ''%s: change 0x%llx to 0x%llx in MSR_IA32_MISC_ENABLE(0x%llx)'' s2
         else myLOG ''%s: 0x%llx in MSR_IA32_MISC_ENABLE(0x%llx) remains the same'' s2)"

definition disableTurboBoost :: "masks \<Rightarrow> cputune \<Rightarrow> cputune" where
  "disableTurboBoost k s =
     (let (cur, s1) = rdmsr64 MSR_IA32_MISC_ENABLE s;
          val = cur OR kDisableTurboBoostBits k;
          (wrote, s2) = setIfNotEqual k cur val MSR_IA32_MISC_ENABLE s1
      in if wrote
         then myLOG ''%s: change 0x%llx to 0x%llx in MSR_IA32_MISC_ENABLE(0x%llx)'' s2
         else myLOG ''%s: 0x%llx in MSR_IA32_MISC_ENABLE(0x%llx) remains the same'' s2)"

definition disableProcHot :: "masks \<Rightarrow> cputune \<Rightarrow> cputune" where
  "disableProcHot k s =
     (let (cur, s1) = rdmsr64 MSR_IA32_POWER_CTL s;
          val = cur AND kDisableProcHotBit k;
          (wrote, s2) = setIfNotEqual k cur val MSR_IA32_POWER_CTL s1
      in if wrote
         then myLOG ''%s: change 0x%llx to 0x%llx in MSR_IA32_POWERCTL(0x%llx)'' s2
         else myLOG ''%s: 0x%llx in MSR_IA32_POWER_CTL(0x%llx) remains the same'' s2)"

definition enableProcHot :: "masks \<Rightarrow> cputune \<Rightarrow> cputune" where
  "enableProcHot k s =
     (let (cur, s1) = rdmsr64 MSR_IA32_POWER_CTL s;
          val = cur OR kEnableProcHotBit k;
          (wrote, s2) = setIfNotEqual k cur val MSR_IA32_POWER_CTL s1
      in if wrote
         then myLOG ''%s: change 0x%llx to 0x%llx in MSR_IA32_POWERCTL(0x%llx)'' s2
         else myLOG ''%s: 0x%llx in MSR_IA32_POWER_CTL(0x%llx) remains the same'' s2)"

definition enableSpeedShift :: "masks \<Rightarrow> cputune \<Rightarrow> cputune" where
  "enableSpeedShift k s =
     (let (cur, s1) = rdmsr64 MSR_IA32_PM_ENABLE s;
          (wrote, s2) = setIfNotEqual k cur (kEnableSpeedShiftBit k) MSR_IA32_PM_ENABLE s1
      in if wrote
         then myLOG ''%s: change 0x%llx to 0x%llx in MSR_IA32_PM_ENABLE(0x%llx)'' s2
         else myLOG ''%s: 0x%llx in MSR_IA32_PM_ENABLE(0x%llx) remains the same'' s2)"

definition disableSpeedShift :: "masks \<Rightarrow> cputune \<Rightarrow> cputune" where
  "disableSpeedShift k s =
     (let (cur, s1) = rdmsr64 MSR_IA32_PM_ENABLE s;
          (wrote, s2) = setIfNotEqual k cur (kDisableSpeedShiftBit k) MSR_IA32_PM_ENABLE s1
      in if wrote
         then myLOG ''%s: change 0x%llx to 0x%llx in MSR_IA32_PM_ENABLE(0x%llx)'' s2
         else myLOG ''%s: 0x%llx in MSR_IA32_PM_ENABLE(0x%llx) remains the same'' s2)"

section \<open>Lifecycle: init, start, stop\<close>

definition getStringPropertyOrElse :: "string option \<Rightarrow> string option \<Rightarrow> string option" where
  "getStringPropertyOrElse v defaultProperty =
     (case v of Some str \<Rightarrow> Some str | None \<Rightarrow> defaultProperty)"

definition getBooleanOrElse :: "bool option \<Rightarrow> bool \<Rightarrow> bool" where
  "getBooleanOrElse v defaultValue = (case v of Some b \<Rightarrow> b | None \<Rightarrow> defaultValue)"

text \<open>
  The tail of \<open>init\<close>: the four reads that store the original register values.
  \<open>org_MSR_IA32_PM_ENABLE\<close> is not assigned here, nor anywhere else in the file.
\<close>

definition init_snapshot :: "cputune \<Rightarrow> cputune" where
  "init_snapshot s =
     (let (misc, s1) = rdmsr64 MSR_IA32_MISC_ENABLE s;
          s1 = s1\<lparr>org_MSR_IA32_MISC_ENABLE := misc\<rparr>;
          (perf, s2) = rdmsr64 MSR_IA32_PERF_CTL s1;
          s2 = s2\<lparr>org_MSR_IA32_PERF_CTL := perf\<rparr>;
          (power, s3) = rdmsr64 MSR_IA32_POWER_CTL s2;
          s3 = s3\<lparr>org_MSR_IA32_POWER_CTL := power\<rparr>;
          (hwp, s4) = rdmsr64 MSR_IA32_HWP_REQUEST s3
      in s4\<lparr>org_HWPRequest := hwp\<rparr>)"

text \<open>The property lookups of \<open>init\<close>, with the defaults the source passes.\<close>

definition init_properties :: "properties \<Rightarrow> cputune \<Rightarrow> cputune" where
  "init_properties p s =
     (let s1 = s\<lparr> ProcHotPath := getStringPropertyOrElse (prop_ProcHotAtRuntime p) None,
                  turboBoostPath := getStringPropertyOrElse (prop_TurboBoostAtRuntime p) None,
                  speedShiftPath := getStringPropertyOrElse (prop_SpeedShiftAtRuntime p) None,
                  hwpRequestConfigPath := getStringPropertyOrElse (prop_HWPRequestConfigPath p) None,
                  enableIntelTurboBoost := getBooleanOrElse (prop_EnableTurboBoost p) False,
                  enableIntelProcHot := getBooleanOrElse (prop_EnableProcHot p) False,
                  enableIntelSpeedShift := getBooleanOrElse (prop_EnableSpeedShift p) False,
                  allowUnrestrictedFS := getBooleanOrElse (prop_AllowUnrestrictedFS p) False \<rparr>
      in case prop_UpdateInterval p of
           Some timeout \<Rightarrow> myLOG ''Update time interval %u ms per cycle'' (s1\<lparr>updateInterval := timeout\<rparr>)
         | None \<Rightarrow> s1)"

definition init :: "host \<Rightarrow> properties \<Rightarrow> cputune \<Rightarrow> bool \<times> cputune" where
  "init h p s =
     (if kernelUnsupported h \<and> \<not> bootargBetaSet h
      then (False, emit (Framework ''nvram.setKextPanicKey'')
                     (myLOG ''Unsupported kernel version: %d, get a CPUTune that supports current kernel from https://github.com/syscl/CPUTune'' s))
      else
        let s0 = (if kextPanicLastBoot h
                  then emit (Framework ''nvram.clearKextPanicKey'')
                         (myLOG ''Found % key being set in NVRAM, CPUTune (%s) supportted kernel version %d, clear the panic key'' s)
                  else s);
            isDisabled = (bootarg_s h \<or> bootarg_x h \<or> bootargOffSet h)
        in if isDisabled then (False, myLOG ''init: not allow to run.'' s0)
           else
             let ret = superInitOk h
             in if \<not> ret then (ret, myLOG ''init: failed!'' s0)
                else (ret, init_snapshot (myLOG ''init: succeeded!'' (init_properties p s0))))"

text \<open>
  The feature part of \<open>start\<close>: TurboBoost, then ProcHot under the start-up guard, then
  SpeedShift with the latch \<open>hwpEnableOnceSet\<close>.
\<close>

definition start_features :: "masks \<Rightarrow> cputune \<Rightarrow> cputune" where
  "start_features k s =
     (let s1 = (if enableIntelTurboBoost s then enableTurboBoost k s else disableTurboBoost k s);
          s2 = (if enableIntelProcHot s1 then enableProcHot k s1
                else if \<not> enableIntelTurboBoost s1 then disableProcHot k s1
                else myLOG ''start: cannot deactivate PROCHOT while turboboost is active!'' s1)
      in if supportedHWP s2
         then (if \<not> hwpEnableOnceSet s2 \<and> enableIntelSpeedShift s2
               then (enableSpeedShift k s2)\<lparr>hwpEnableOnceSet := True\<rparr>
               else s2)
         else myLOG ''start: cpu model (0x%x) does not support Intel SpeedShift.'' s2)"

definition start :: "masks \<Rightarrow> host \<Rightarrow> cputune \<Rightarrow> bool \<times> cputune" where
  "start k h s =
     (let ret = superStartOk h
      in if \<not> ret \<or> \<not> providerPresent h
         then (ret, myLOG ''start: cannot start provider or provider does not exist.'' s)
         else
           let s1 = (if allowUnrestrictedFS s then emit (Framework ''sip_tune.allowUnrestrictedFS'') s else s)
           in if \<not> timerCreated h
              then (False, myLOG ''start: failed to create timer event source!'' s1)
              else
                let s2 = s1\<lparr>timerSource := True\<rparr>
                in if \<not> eventSourceAdded h
                   then (False, myLOG ''start: failed to add timer event source to work loop!'' s2)
                   else
                     let s3 = setTimeoutMS 2000 s2;
                         s4 = start_features k s3;
                         s5 = myLOG ''start: registerService'' s4
                     in (ret, emit (Framework ''registerService'') s5))"

text \<open>
  \<open>stop\<close> restores each register by the same three lines (read, \<open>setIfNotEqual\<close> with the
  stored original, log when written); \<open>restore\<close> is those three lines.
\<close>

definition restore :: "masks \<Rightarrow> msr \<Rightarrow> u64 \<Rightarrow> string \<Rightarrow> cputune \<Rightarrow> cputune" where
  "restore k m org fmt s =
     (let (cur, s1) = rdmsr64 m s;
          (wrote, s2) = setIfNotEqual k cur org m s1
      in if wrote then myLOG fmt s2 else s2)"

definition stop :: "masks \<Rightarrow> cputune \<Rightarrow> cputune" where
  "stop k s =
     (let s0 = (if timerSource s
                then (emit (Framework ''timerSource->release'')
                        (emit (Framework ''removeEventSource'') (emit CancelTimeout s)))
                     \<lparr>timerSource := False\<rparr>
                else s);
          s1 = restore k MSR_IA32_POWER_CTL (org_MSR_IA32_POWER_CTL s0)
                 ''stop: restore MSR_IA32_POWER_CTK from 0x%llx to 0x%llx'' s0;
          s2 = restore k MSR_IA32_MISC_ENABLE (org_MSR_IA32_MISC_ENABLE s1)
                 ''stop: restore MSR_IA32_MISC_ENABLE from 0x%llx to 0x%llx'' s1;
          s3 = restore k MSR_IA32_PERF_CTL (org_MSR_IA32_PERF_CTL s2)
                 ''stop: restore MSR_IA32_PERF_CTL from 0x%llx to 0x%llx'' s2;
          s5 = (if supportedHWP s3
                then let s4 = restore k MSR_IA32_PM_ENABLE (org_MSR_IA32_PM_ENABLE s3)
                                ''stop: restore MSR_IA32_PM_ENABLE from 0x%llx to 0x%llx'' s3
                     in restore k MSR_IA32_HWP_REQUEST (org_HWPRequest s4)
                          ''%s: restore MSR_IA32_HWP_REQUEST(0x%llx) from 0x%llx to 0x%llx'' s4
                else s3)
      in emit (Framework ''super::stop'') s5)"

section \<open>The reconciliation cycle\<close>

text \<open>
  \<open>readConfigAtRuntime\<close> is four blocks in sequence followed by the re-arming of the
  timer; each block is a definition of its own here, in the order of the source.
\<close>

definition reconcileTurboBoost :: "masks \<Rightarrow> files \<Rightarrow> cputune \<Rightarrow> cputune" where
  "reconcileTurboBoost k fs s =
     (case turboBoostPath s of
        None \<Rightarrow> s
      | Some path \<Rightarrow>
          let (cur, s1) = rdmsr64 MSR_IA32_MISC_ENABLE s;
              prev = (cur = (org_MSR_IA32_MISC_ENABLE s1 AND kEnableTurboBoostBits k));
              (buffer, s2) = readFileNBytes fs path 0 1 s1;
              curr = requestsEnable buffer
          in if curr \<noteq> prev
             then let s3 = myLOG ''readConfigAtRuntime: %s Intel Turbo Boost'' s2
                  in if curr then enableTurboBoost k s3 else disableTurboBoost k s3
             else s2)"

definition reconcileProcHot :: "masks \<Rightarrow> files \<Rightarrow> cputune \<Rightarrow> cputune" where
  "reconcileProcHot k fs s =
     (case ProcHotPath s of
        None \<Rightarrow> s
      | Some path \<Rightarrow>
          let (cur, s1) = rdmsr64 MSR_IA32_POWER_CTL s;
              prev = (cur AND kEnableProcHotBit k \<noteq> 0);
              (buffer, s2) = readFileNBytes fs path 0 1 s1;
              curr = requestsEnable buffer
          in if curr \<noteq> prev
             then let s3 = myLOG ''readConfigAtRunTime: %s Intel Proc Hot'' s2
                  in if curr then enableProcHot k s3
                     else let (misc, s4) = rdmsr64 MSR_IA32_MISC_ENABLE s3
                          in if misc AND kEnableTurboBoostBits k \<noteq> kEnableTurboBoostBits k
                             then disableProcHot k s4
                             else myLOG ''readConfigAtRuntime: Cannot disable PROCHOT while turboboost is active!'' s4
             else s2)"

definition reconcileHWPRequest :: "masks \<Rightarrow> files \<Rightarrow> cputune \<Rightarrow> cputune" where
  "reconcileHWPRequest k fs s =
     (if supportedHWP s
      then (case hwpRequestConfigPath s of
              None \<Rightarrow> s
            | Some path \<Rightarrow>
                let (hex, s1) = readFileNBytes fs path 0 10 s
                in (case hex of
                      None \<Rightarrow> s1
                    | Some h \<Rightarrow>
                        let req = hexToInt h
                        in if req = ERANGE
                           then myLOG ''%s: HWP Request %s is not a valid hexadecimal constant at %s'' s1
                           else
                             (let (curHWPRequest, s2) = rdmsr64 MSR_IA32_HWP_REQUEST s1;
                                  usrHWPRequest = req;
                                  (wrote, s3) = setIfNotEqual k curHWPRequest usrHWPRequest MSR_IA32_HWP_REQUEST s2
                              in if wrote
                                 then myLOG ''%s: change MSR_IA32_HWP_REQUEST(0x%llx): 0x%llx -> 0x%llx'' s3
                                 else s3)))
      else s)"

definition reconcileSpeedShift :: "masks \<Rightarrow> files \<Rightarrow> cputune \<Rightarrow> cputune" where
  "reconcileSpeedShift k fs s =
     (if \<not> hwpEnableOnceSet s \<and> supportedHWP s
      then (case speedShiftPath s of
              None \<Rightarrow> s
            | Some path \<Rightarrow>
                let (cur, s1) = rdmsr64 MSR_IA32_PM_ENABLE s;
                    prev = (cur = kEnableSpeedShiftBit k);
                    (buffer, s2) = readFileNBytes fs path 0 1 s1;
                    curr = requestsEnable buffer
                in if buffer \<noteq> None \<and> curr \<noteq> prev
                   then let s3 = myLOG ''readConfigAtRuntime: %s Intel Speed Shift'' s2
                        in if curr then enableSpeedShift k s3 else disableSpeedShift k s3
                   else s2)
      else s)"

definition readConfigAtRuntime :: "masks \<Rightarrow> files \<Rightarrow> cputune \<Rightarrow> cputune" where
  "readConfigAtRuntime k fs s =
     (let s1 = reconcileTurboBoost k fs s;
          s2 = reconcileProcHot k fs s1;
          s3 = reconcileHWPRequest k fs s2;
          s4 = reconcileSpeedShift k fs s3
      in setTimeoutMS (updateInterval s4) s4)"

text \<open>A run of cycles, one file system per cycle (the sources may change in between).\<close>

fun run_cycles :: "masks \<Rightarrow> files list \<Rightarrow> cputune \<Rightarrow> cputune" where
  "run_cycles k [] s = s"
| "run_cycles k (fs # rest) s = run_cycles k rest (readConfigAtRuntime k fs s)"

text \<open>The states between the blocks of one cycle.\<close>

abbreviation after_turbo :: "masks \<Rightarrow> files \<Rightarrow> cputune \<Rightarrow> cputune" where
  "after_turbo k fs s \<equiv> reconcileTurboBoost k fs s"

abbreviation after_prochot :: "masks \<Rightarrow> files \<Rightarrow> cputune \<Rightarrow> cputune" where
  "after_prochot k fs s \<equiv> reconcileProcHot k fs (after_turbo k fs s)"

abbreviation after_hwp :: "masks \<Rightarrow> files \<Rightarrow> cputune \<Rightarrow> cputune" where
  "after_hwp k fs s \<equiv> reconcileHWPRequest k fs (after_prochot k fs s)"

abbreviation after_speedshift :: "masks \<Rightarrow> files \<Rightarrow> cputune \<Rightarrow> cputune" where
  "after_speedshift k fs s \<equiv> reconcileSpeedShift k fs (after_hwp k fs s)"

section \<open>Observations on traces\<close>

text \<open>The events an operation added when it took the state \<open>s\<close> to the state \<open>t\<close>.\<close>

definition new_events :: "cputune \<Rightarrow> cputune \<Rightarrow> event list" where
  "new_events s t = drop (length (trace s)) (trace t)"

text \<open>The register writes among some events, in order, and the registers written.\<close>

definition writes :: "event list \<Rightarrow> (msr \<times> u64) list" where
  "writes es = concat (map (\<lambda>e. case e of Wrmsr m v \<Rightarrow> [(m, v)] | _ \<Rightarrow> []) es)"

definition written :: "event list \<Rightarrow> msr set" where
  "written es = fst ` set (writes es)"

text \<open>
  A write is in order when the event just before it is a read of the same register that
  returned a value different from the one written. \<open>guarded prev es\<close> checks every write
  of \<open>es\<close>, where \<open>prev\<close> is the event before the first one (if any).
\<close>

fun write_ok :: "event option \<Rightarrow> event \<Rightarrow> bool" where
  "write_ok (Some (Rdmsr m' c)) (Wrmsr m v) = (m' = m \<and> c \<noteq> v)"
| "write_ok _ (Wrmsr m v) = False"
| "write_ok _ _ = True"

fun guarded :: "event option \<Rightarrow> event list \<Rightarrow> bool" where
  "guarded prev [] = True"
| "guarded prev (e # es) = (write_ok prev e \<and> guarded (Some e) es)"

text \<open>A file read asks for at most \<open>n\<close> bytes and gets no more than it asked for.\<close>

fun read_within :: "nat \<Rightarrow> event \<Rightarrow> bool" where
  "read_within n (ReadFile path bytes buffer) =
     (bytes \<le> n \<and> (case buffer of None \<Rightarrow> True | Some b \<Rightarrow> length b \<le> bytes))"
| "read_within n _ = True"

fun is_timer :: "event \<Rightarrow> bool" where
  "is_timer (SetTimeoutMS ms) = True"
| "is_timer _ = False"

text \<open>
  An operation adds to the trace in order when it keeps what was there and every write
  among the events it adds is guarded.
\<close>

definition adds_guarded :: "cputune \<Rightarrow> cputune \<Rightarrow> bool" where
  "adds_guarded s t \<longleftrightarrow>
     take (length (trace s)) (trace t) = trace s \<and> guarded None (new_events s t)"

text \<open>
  The member variables alone: the state with registers and trace blanked. An operation
  continues a state when it leaves the members as they are and only adds to the trace.
\<close>

definition members :: "cputune \<Rightarrow> cputune" where
  "members s = s\<lparr>msrs := (\<lambda>m. 0), trace := []\<rparr>"

definition continues :: "cputune \<Rightarrow> cputune \<Rightarrow> bool" where
  "continues s t \<longleftrightarrow>
     members t = members s \<and> take (length (trace s)) (trace t) = trace s"

text \<open>What a read-modify-write of register \<open>m\<close> towards the value \<open>v\<close> leaves in the trace.\<close>

definition rmw_events :: "msr \<Rightarrow> u64 \<Rightarrow> u64 \<Rightarrow> string \<Rightarrow> string \<Rightarrow> event list" where
  "rmw_events m cur v changed same =
     Rdmsr m cur # (if cur \<noteq> v then [Wrmsr m v, Log changed] else [Log same])"


section \<open>Concrete machines\<close>

text \<open>A host on which \<open>init\<close> and \<open>start\<close> pass every framework check.\<close>

definition ok_host :: host where
  "ok_host =
     \<lparr> kernelUnsupported = False, bootargBetaSet = False, kextPanicLastBoot = False,
       bootarg_s = False, bootarg_x = False, bootargOffSet = False,
       superInitOk = True, superStartOk = True, providerPresent = True,
       timerCreated = True, eventSourceAdded = True \<rparr>"

definition no_properties :: properties where
  "no_properties =
     \<lparr> prop_ProcHotAtRuntime = None, prop_TurboBoostAtRuntime = None,
       prop_SpeedShiftAtRuntime = None, prop_HWPRequestConfigPath = None,
       prop_EnableTurboBoost = None, prop_EnableProcHot = None,
       prop_EnableSpeedShift = None, prop_AllowUnrestrictedFS = None,
       prop_UpdateInterval = None \<rparr>"

text \<open>
  Modelled from the spec: the members of a \<open>CPUTune\<close> object before \<open>init\<close>; their
  initialisers are in CPUTune.hpp, which is missing. The spec has the latch "created
  false at startup"; paths are null, the stored originals zero. Used for concrete inputs
  only, on registers \<open>regs\<close> and with HWP support \<open>hwp\<close>.
\<close>

definition boot_object :: "(msr \<Rightarrow> u64) \<Rightarrow> bool \<Rightarrow> cputune" where
  "boot_object regs hwp =
     \<lparr> msrs = regs, trace = [],
       ProcHotPath = None, turboBoostPath = None, speedShiftPath = None,
       hwpRequestConfigPath = None,
       enableIntelTurboBoost = False, enableIntelProcHot = False,
       enableIntelSpeedShift = False, allowUnrestrictedFS = False,
       updateInterval = 1000, supportedHWP = hwp, hwpEnableOnceSet = False,
       timerSource = False,
       org_MSR_IA32_MISC_ENABLE = 0, org_MSR_IA32_PERF_CTL = 0,
       org_MSR_IA32_POWER_CTL = 0, org_MSR_IA32_PM_ENABLE = 0, org_HWPRequest = 0 \<rparr>"

text \<open>The state in which the first cycle runs: \<open>init\<close>, then \<open>start\<close>, on the good host.\<close>

definition boot :: "masks \<Rightarrow> properties \<Rightarrow> (msr \<Rightarrow> u64) \<Rightarrow> bool \<Rightarrow> cputune" where
  "boot k p regs hwp = snd (start k ok_host (snd (init ok_host p (boot_object regs hwp))))"

text \<open>
  Register contents with TurboBoost on (bit 38 of MISC_ENABLE clear) and ProcHot on
  (bit 0 of POWER_CTL set); \<open>pm\<close> is the content of PM_ENABLE.
\<close>

definition typical_regs :: "u64 \<Rightarrow> msr \<Rightarrow> u64" where
  "typical_regs pm =
     (\<lambda>m. 0)(MSR_IA32_MISC_ENABLE := 0x850089, MSR_IA32_POWER_CTL := 0x24005B,
             MSR_IA32_PM_ENABLE := pm)"

text \<open>Properties that ask for TurboBoost and ProcHot to be on at start.\<close>

definition turbo_prochot_on :: properties where
  "turbo_prochot_on =
     no_properties\<lparr> prop_EnableTurboBoost := Some True, prop_EnableProcHot := Some True \<rparr>"

text \<open>File systems: a single readable file, and none at all.\<close>

definition one_file :: "string \<Rightarrow> string \<Rightarrow> files" where
  "one_file path content = (\<lambda>p. if p = path then Some content else None)"

definition no_files :: files where
  "no_files = (\<lambda>p. None)"

text \<open>
  HWP machine, SpeedShift driven by a runtime file and not enabled at start: the latch is
  still false when the first cycle runs.
\<close>

definition speedshift_start :: cputune where
  "speedshift_start =
     boot spec_masks (turbo_prochot_on\<lparr>prop_SpeedShiftAtRuntime := Some ''/tmp/speedshift''\<rparr>)
       (typical_regs 0) True"

text \<open>TurboBoost and ProcHot on at start, ProcHot driven by a runtime file.\<close>

definition prochot_start :: cputune where
  "prochot_start =
     boot spec_masks (turbo_prochot_on\<lparr>prop_ProcHotAtRuntime := Some ''/tmp/prochot''\<rparr>)
       (typical_regs 0) False"

text \<open>HWP machine on which PM_ENABLE holds 1 before the driver is loaded.\<close>

definition hwp_enabled_start :: cputune where
  "hwp_enabled_start = boot spec_masks turbo_prochot_on (typical_regs 1) True"

text \<open>TurboBoost and ProcHot on at start, both driven by runtime files.\<close>

definition both_paths_start :: cputune where
  "both_paths_start =
     boot spec_masks
       (turbo_prochot_on\<lparr>prop_TurboBoostAtRuntime := Some ''/tmp/turbo'',
                         prop_ProcHotAtRuntime := Some ''/tmp/prochot''\<rparr>)
       (typical_regs 0) False"

text \<open>
  An object with only the HWP request configured, on an HWP machine whose HWP_REQUEST
  register holds \<open>v\<close>.
\<close>

definition hwp_object :: "u64 \<Rightarrow> cputune" where
  "hwp_object v =
     (boot_object ((typical_regs 1)(MSR_IA32_HWP_REQUEST := v)) True)
       \<lparr>hwpRequestConfigPath := Some ''/tmp/hwp_request''\<rparr>"

section \<open>Traces: basic facts\<close>

lemmas prim_defs = emit_def myLOG_def rdmsr64_def wrmsr64_def setTimeoutMS_def
  readFileNBytes_def setIfNotEqual_def

lemmas op_defs = enableTurboBoost_def disableTurboBoost_def enableProcHot_def
  disableProcHot_def enableSpeedShift_def disableSpeedShift_def restore_def

lemmas block_defs = reconcileTurboBoost_def reconcileProcHot_def reconcileHWPRequest_def
  reconcileSpeedShift_def

lemmas concrete_defs = ok_host_def no_properties_def boot_object_def boot_def
  typical_regs_def turbo_prochot_on_def spec_masks_def one_file_def no_files_def
  hwp_object_def

lemmas lifecycle_defs = init_def init_snapshot_def init_properties_def start_def
  start_features_def getBooleanOrElse_def getStringPropertyOrElse_def stop_def
  readConfigAtRuntime_def requestsEnable_def

lemma write_ok_mono: "write_ok None e \<Longrightarrow> write_ok p e"
  by (cases e) simp_all

lemma guarded_mono: "guarded None es \<Longrightarrow> guarded p es"
  by (cases es) (simp_all add: write_ok_mono)

lemma guarded_append: "guarded p xs \<Longrightarrow> guarded None ys \<Longrightarrow> guarded p (xs @ ys)"
  by (induction xs arbitrary: p) (simp_all add: guarded_mono)

lemma writes_append: "writes (xs @ ys) = writes xs @ writes ys"
  by (simp add: writes_def)

lemma written_append: "written (xs @ ys) = written xs \<union> written ys"
  by (simp add: written_def writes_append image_Un)

lemma writes_simps:
  "writes [] = []"
  "writes (Wrmsr m v # es) = (m, v) # writes es"
  "writes (Rdmsr m v # es) = writes es"
  "writes (ReadFile path n b # es) = writes es"
  "writes (Log f # es) = writes es"
  "writes (SetTimeoutMS ms # es) = writes es"
  "writes (CancelTimeout # es) = writes es"
  "writes (Framework f # es) = writes es"
  by (simp_all add: writes_def)

lemma written_simps:
  "written [] = {}"
  "written (Wrmsr m v # es) = insert m (written es)"
  "written (Rdmsr m v # es) = written es"
  "written (ReadFile path n b # es) = written es"
  "written (Log f # es) = written es"
  "written (SetTimeoutMS ms # es) = written es"
  "written (CancelTimeout # es) = written es"
  "written (Framework f # es) = written es"
  by (simp_all add: written_def writes_simps)

lemma continues_refl: "continues s s"
  by (simp add: continues_def)

lemma continues_trace: "continues s t \<Longrightarrow> trace t = trace s @ new_events s t"
  unfolding continues_def new_events_def by (metis append_take_drop_id)

lemma continues_trans:
  assumes "continues s t" "continues t u"
  shows "continues s u" and "new_events s u = new_events s t @ new_events t u"
proof -
  have a: "trace t = trace s @ new_events s t" using assms(1) by (rule continues_trace)
  have b: "trace u = trace t @ new_events t u" using assms(2) by (rule continues_trace)
  show "new_events s u = new_events s t @ new_events t u"
    unfolding new_events_def[of s u] b a by simp
  have "take (length (trace s)) (trace u) = trace s"
    unfolding b a by simp
  then show "continues s u" using assms by (simp add: continues_def)
qed

lemma members_fields:
  assumes m: "members t = members s"
  shows "ProcHotPath t = ProcHotPath s" "turboBoostPath t = turboBoostPath s"
    "speedShiftPath t = speedShiftPath s" "hwpRequestConfigPath t = hwpRequestConfigPath s"
    "enableIntelTurboBoost t = enableIntelTurboBoost s" "enableIntelProcHot t = enableIntelProcHot s"
    "enableIntelSpeedShift t = enableIntelSpeedShift s" "allowUnrestrictedFS t = allowUnrestrictedFS s"
    "updateInterval t = updateInterval s" "supportedHWP t = supportedHWP s"
    "hwpEnableOnceSet t = hwpEnableOnceSet s" "timerSource t = timerSource s"
    "org_MSR_IA32_MISC_ENABLE t = org_MSR_IA32_MISC_ENABLE s"
    "org_MSR_IA32_PERF_CTL t = org_MSR_IA32_PERF_CTL s"
    "org_MSR_IA32_POWER_CTL t = org_MSR_IA32_POWER_CTL s"
    "org_MSR_IA32_PM_ENABLE t = org_MSR_IA32_PM_ENABLE s"
    "org_HWPRequest t = org_HWPRequest s"
proof -
  show "ProcHotPath t = ProcHotPath s"
    using arg_cong[OF m, of ProcHotPath] by (simp add: members_def)
  show "turboBoostPath t = turboBoostPath s"
    using arg_cong[OF m, of turboBoostPath] by (simp add: members_def)
  show "speedShiftPath t = speedShiftPath s"
    using arg_cong[OF m, of speedShiftPath] by (simp add: members_def)
  show "hwpRequestConfigPath t = hwpRequestConfigPath s"
    using arg_cong[OF m, of hwpRequestConfigPath] by (simp add: members_def)
  show "enableIntelTurboBoost t = enableIntelTurboBoost s"
    using arg_cong[OF m, of enableIntelTurboBoost] by (simp add: members_def)
  show "enableIntelProcHot t = enableIntelProcHot s"
    using arg_cong[OF m, of enableIntelProcHot] by (simp add: members_def)
  show "enableIntelSpeedShift t = enableIntelSpeedShift s"
    using arg_cong[OF m, of enableIntelSpeedShift] by (simp add: members_def)
  show "allowUnrestrictedFS t = allowUnrestrictedFS s"
    using arg_cong[OF m, of allowUnrestrictedFS] by (simp add: members_def)
  show "updateInterval t = updateInterval s"
    using arg_cong[OF m, of updateInterval] by (simp add: members_def)
  show "supportedHWP t = supportedHWP s"
    using arg_cong[OF m, of supportedHWP] by (simp add: members_def)
  show "hwpEnableOnceSet t = hwpEnableOnceSet s"
    using arg_cong[OF m, of hwpEnableOnceSet] by (simp add: members_def)
  show "timerSource t = timerSource s"
    using arg_cong[OF m, of timerSource] by (simp add: members_def)
  show "org_MSR_IA32_MISC_ENABLE t = org_MSR_IA32_MISC_ENABLE s"
    using arg_cong[OF m, of org_MSR_IA32_MISC_ENABLE] by (simp add: members_def)
  show "org_MSR_IA32_PERF_CTL t = org_MSR_IA32_PERF_CTL s"
    using arg_cong[OF m, of org_MSR_IA32_PERF_CTL] by (simp add: members_def)
  show "org_MSR_IA32_POWER_CTL t = org_MSR_IA32_POWER_CTL s"
    using arg_cong[OF m, of org_MSR_IA32_POWER_CTL] by (simp add: members_def)
  show "org_MSR_IA32_PM_ENABLE t = org_MSR_IA32_PM_ENABLE s"
    using arg_cong[OF m, of org_MSR_IA32_PM_ENABLE] by (simp add: members_def)
  show "org_HWPRequest t = org_HWPRequest s"
    using arg_cong[OF m, of org_HWPRequest] by (simp add: members_def)
qed

section \<open>What the primitives and the register operations do\<close>

lemma word_or_absorb: "(x::u64) OR (y AND x) = x" "(x::u64) OR (x AND y) = x"
  by (rule bit_eqI; auto simp add: bit_or_iff bit_and_iff)+

lemma hw_store_simps:
  "hw_store k MSR_IA32_MISC_ENABLE old v = v"
  "hw_store k MSR_IA32_PERF_CTL old v = v"
  "hw_store k MSR_IA32_POWER_CTL old v = v"
  "hw_store k MSR_IA32_HWP_REQUEST old v = v"
  "hw_store k MSR_IA32_PM_ENABLE old v = v OR (old AND kEnableSpeedShiftBit k)"
  "hw_store k m v v = v"
  by (simp_all add: hw_store_def word_or_absorb)

lemma prim_members [simp]:
  "members (emit e s) = members s"
  "members (myLOG f s) = members s"
  "members (snd (rdmsr64 m s)) = members s"
  "members (wrmsr64 k m v s) = members s"
  "members (setTimeoutMS ms s) = members s"
  "members (snd (readFileNBytes fs path off n s)) = members s"
  "members (snd (setIfNotEqual k c x m s)) = members s"
  by (simp_all add: prim_defs members_def Let_def)

lemma prim_trace [simp]:
  "trace (emit e s) = trace s @ [e]"
  "trace (myLOG f s) = trace s @ [Log f]"
  "trace (snd (rdmsr64 m s)) = trace s @ [Rdmsr m (msrs s m)]"
  "trace (wrmsr64 k m v s) = trace s @ [Wrmsr m v]"
  "trace (setTimeoutMS ms s) = trace s @ [SetTimeoutMS ms]"
  "trace (snd (readFileNBytes fs path off n s)) =
     trace s @ [ReadFile path n (map_option (\<lambda>content. take n (drop off content)) (fs path))]"
  "trace (snd (setIfNotEqual k c x m s)) = trace s @ (if c \<noteq> x then [Wrmsr m x] else [])"
  by (simp_all add: prim_defs Let_def)

lemma prim_msrs [simp]:
  "msrs (emit e s) = msrs s"
  "msrs (myLOG f s) = msrs s"
  "msrs (snd (rdmsr64 m s)) = msrs s"
  "msrs (wrmsr64 k m v s) = (msrs s)(m := hw_store k m (msrs s m) v)"
  "msrs (setTimeoutMS ms s) = msrs s"
  "msrs (snd (readFileNBytes fs path off n s)) = msrs s"
  "msrs (snd (setIfNotEqual k c x m s)) =
     (if c \<noteq> x then (msrs s)(m := hw_store k m (msrs s m) x) else msrs s)"
  by (simp_all add: prim_defs Let_def)

lemma prim_fst [simp]:
  "fst (rdmsr64 m s) = msrs s m"
  "fst (readFileNBytes fs path off n s) =
     map_option (\<lambda>content. take n (drop off content)) (fs path)"
  "fst (setIfNotEqual k c x m s) = (c \<noteq> x)"
  by (simp_all add: prim_defs Let_def)

lemmas emit_fields [simp] = members_fields[OF prim_members(1)]
lemmas myLOG_fields [simp] = members_fields[OF prim_members(2)]
lemmas rdmsr64_fields [simp] = members_fields[OF prim_members(3)]
lemmas wrmsr64_fields [simp] = members_fields[OF prim_members(4)]
lemmas setTimeoutMS_fields [simp] = members_fields[OF prim_members(5)]
lemmas readFileNBytes_fields [simp] = members_fields[OF prim_members(6)]
lemmas setIfNotEqual_fields [simp] = members_fields[OF prim_members(7)]

lemma op_members [simp]:
  "members (enableTurboBoost k s) = members s"
  "members (disableTurboBoost k s) = members s"
  "members (enableProcHot k s) = members s"
  "members (disableProcHot k s) = members s"
  "members (enableSpeedShift k s) = members s"
  "members (disableSpeedShift k s) = members s"
  "members (restore k m org fmt s) = members s"
  by (simp_all add: op_defs Let_def split_def)

lemmas enableTurboBoost_fields [simp] = members_fields[OF op_members(1)]
lemmas disableTurboBoost_fields [simp] = members_fields[OF op_members(2)]
lemmas enableProcHot_fields [simp] = members_fields[OF op_members(3)]
lemmas disableProcHot_fields [simp] = members_fields[OF op_members(4)]
lemmas enableSpeedShift_fields [simp] = members_fields[OF op_members(5)]
lemmas disableSpeedShift_fields [simp] = members_fields[OF op_members(6)]
lemmas restore_fields [simp] = members_fields[OF op_members(7)]

lemma op_trace:
  "trace (enableTurboBoost k s) = trace s @
     rmw_events MSR_IA32_MISC_ENABLE (msrs s MSR_IA32_MISC_ENABLE)
       (msrs s MSR_IA32_MISC_ENABLE AND kEnableTurboBoostBits k)
       ''%s: change 0x%llx to 0x%llx in MSR_IA32_MISC_ENABLE(0x%llx)''
       ''%s: 0x%llx in MSR_IA32_MISC_ENABLE(0x%llx) remains the same''"
  "trace (disableTurboBoost k s) = trace s @
     rmw_events MSR_IA32_MISC_ENABLE (msrs s MSR_IA32_MISC_ENABLE)
       (msrs s MSR_IA32_MISC_ENABLE OR kDisableTurboBoostBits k)
       ''%s: change 0x%llx to 0x%llx in MSR_IA32_MISC_ENABLE(0x%llx)''
       ''%s: 0x%llx in MSR_IA32_MISC_ENABLE(0x%llx) remains the same''"
  "trace (enableProcHot k s) = trace s @
     rmw_events MSR_IA32_POWER_CTL (msrs s MSR_IA32_POWER_CTL)
       (msrs s MSR_IA32_POWER_CTL OR kEnableProcHotBit k)
       ''%s: change 0x%llx to 0x%llx in MSR_IA32_POWERCTL(0x%llx)''
       ''%s: 0x%llx in MSR_IA32_POWER_CTL(0x%llx) remains the same''"
  "trace (disableProcHot k s) = trace s @
     rmw_events MSR_IA32_POWER_CTL (msrs s MSR_IA32_POWER_CTL)
       (msrs s MSR_IA32_POWER_CTL AND kDisableProcHotBit k)
       ''%s: change 0x%llx to 0x%llx in MSR_IA32_POWERCTL(0x%llx)''
       ''%s: 0x%llx in MSR_IA32_POWER_CTL(0x%llx) remains the same''"
  "trace (enableSpeedShift k s) = trace s @
     rmw_events MSR_IA32_PM_ENABLE (msrs s MSR_IA32_PM_ENABLE) (kEnableSpeedShiftBit k)
       ''%s: change 0x%llx to 0x%llx in MSR_IA32_PM_ENABLE(0x%llx)''
       ''%s: 0x%llx in MSR_IA32_PM_ENABLE(0x%llx) remains the same''"
  "trace (disableSpeedShift k s) = trace s @
     rmw_events MSR_IA32_PM_ENABLE (msrs s MSR_IA32_PM_ENABLE) (kDisableSpeedShiftBit k)
       ''%s: change 0x%llx to 0x%llx in MSR_IA32_PM_ENABLE(0x%llx)''
       ''%s: 0x%llx in MSR_IA32_PM_ENABLE(0x%llx) remains the same''"
  "trace (restore k m org fmt s) = trace s @
     Rdmsr m (msrs s m) # (if msrs s m \<noteq> org then [Wrmsr m org, Log fmt] else [])"
  by (simp_all add: op_defs rmw_events_def Let_def split_def)

lemma op_msrs:
  "msrs (enableTurboBoost k s) =
     (msrs s)(MSR_IA32_MISC_ENABLE := msrs s MSR_IA32_MISC_ENABLE AND kEnableTurboBoostBits k)"
  "msrs (disableTurboBoost k s) =
     (msrs s)(MSR_IA32_MISC_ENABLE := msrs s MSR_IA32_MISC_ENABLE OR kDisableTurboBoostBits k)"
  "msrs (enableProcHot k s) =
     (msrs s)(MSR_IA32_POWER_CTL := msrs s MSR_IA32_POWER_CTL OR kEnableProcHotBit k)"
  "msrs (disableProcHot k s) =
     (msrs s)(MSR_IA32_POWER_CTL := msrs s MSR_IA32_POWER_CTL AND kDisableProcHotBit k)"
  "msrs (enableSpeedShift k s) = (msrs s)(MSR_IA32_PM_ENABLE := kEnableSpeedShiftBit k)"
  "msrs (disableSpeedShift k s) =
     (msrs s)(MSR_IA32_PM_ENABLE :=
        kDisableSpeedShiftBit k OR (msrs s MSR_IA32_PM_ENABLE AND kEnableSpeedShiftBit k))"
  "msrs (restore k m org fmt s) = (msrs s)(m := hw_store k m (msrs s m) org)"
  by (auto simp add: op_defs Let_def split_def hw_store_simps word_or_absorb)

lemma rmw_writes:
  "writes (rmw_events m cur v changed same) = (if cur \<noteq> v then [(m, v)] else [])"
  by (simp add: rmw_events_def writes_simps)

lemma rmw_guarded: "guarded None (rmw_events m cur v changed same)"
  by (simp add: rmw_events_def)

lemma op_new_events:
  "new_events s (enableTurboBoost k s) =
     rmw_events MSR_IA32_MISC_ENABLE (msrs s MSR_IA32_MISC_ENABLE)
       (msrs s MSR_IA32_MISC_ENABLE AND kEnableTurboBoostBits k)
       ''%s: change 0x%llx to 0x%llx in MSR_IA32_MISC_ENABLE(0x%llx)''
       ''%s: 0x%llx in MSR_IA32_MISC_ENABLE(0x%llx) remains the same''"
  "new_events s (enableProcHot k s) =
     rmw_events MSR_IA32_POWER_CTL (msrs s MSR_IA32_POWER_CTL)
       (msrs s MSR_IA32_POWER_CTL OR kEnableProcHotBit k)
       ''%s: change 0x%llx to 0x%llx in MSR_IA32_POWERCTL(0x%llx)''
       ''%s: 0x%llx in MSR_IA32_POWER_CTL(0x%llx) remains the same''"
  "new_events s (enableSpeedShift k s) =
     rmw_events MSR_IA32_PM_ENABLE (msrs s MSR_IA32_PM_ENABLE) (kEnableSpeedShiftBit k)
       ''%s: change 0x%llx to 0x%llx in MSR_IA32_PM_ENABLE(0x%llx)''
       ''%s: 0x%llx in MSR_IA32_PM_ENABLE(0x%llx) remains the same''"
  by (simp_all add: new_events_def op_trace)

section \<open>The blocks of a cycle and the cycle as a whole\<close>

lemma block_members [simp]:
  "members (reconcileTurboBoost k fs s) = members s"
  "members (reconcileProcHot k fs s) = members s"
  "members (reconcileHWPRequest k fs s) = members s"
  "members (reconcileSpeedShift k fs s) = members s"
  by (simp_all add: block_defs Let_def split_def split: option.splits)

lemmas reconcileTurboBoost_fields [simp] = members_fields[OF block_members(1)]
lemmas reconcileProcHot_fields [simp] = members_fields[OF block_members(2)]
lemmas reconcileHWPRequest_fields [simp] = members_fields[OF block_members(3)]
lemmas reconcileSpeedShift_fields [simp] = members_fields[OF block_members(4)]

lemma block_continues:
  "continues s (reconcileTurboBoost k fs s)"
  "continues s (reconcileProcHot k fs s)"
  "continues s (reconcileHWPRequest k fs s)"
  "continues s (reconcileSpeedShift k fs s)"
  by (simp_all add: continues_def)
     (simp_all add: block_defs op_trace Let_def split_def split: option.splits)

lemma block_guarded:
  "guarded None (new_events s (reconcileTurboBoost k fs s))"
  "guarded None (new_events s (reconcileProcHot k fs s))"
  "guarded None (new_events s (reconcileHWPRequest k fs s))"
  "guarded None (new_events s (reconcileSpeedShift k fs s))"
  by (simp_all add: block_defs new_events_def op_trace rmw_events_def Let_def split_def
      split: option.splits)

lemma block_written:
  "written (new_events s (reconcileTurboBoost k fs s)) \<subseteq> {MSR_IA32_MISC_ENABLE}"
  "written (new_events s (reconcileProcHot k fs s)) \<subseteq> {MSR_IA32_POWER_CTL}"
  "written (new_events s (reconcileHWPRequest k fs s)) \<subseteq> {MSR_IA32_HWP_REQUEST}"
  "written (new_events s (reconcileSpeedShift k fs s)) \<subseteq> {MSR_IA32_PM_ENABLE}"
  by (simp_all add: block_defs new_events_def op_trace rmw_events_def written_simps Let_def
      split_def split: option.splits)

lemma block_reads:
  "list_all (read_within 1) (new_events s (reconcileTurboBoost k fs s))"
  "list_all (read_within 1) (new_events s (reconcileProcHot k fs s))"
  "list_all (read_within 10) (new_events s (reconcileHWPRequest k fs s))"
  "list_all (read_within 1) (new_events s (reconcileSpeedShift k fs s))"
  by (simp_all add: block_defs new_events_def op_trace rmw_events_def Let_def split_def
      split: option.splits)

lemma block_no_timer:
  "filter is_timer (new_events s (reconcileTurboBoost k fs s)) = []"
  "filter is_timer (new_events s (reconcileProcHot k fs s)) = []"
  "filter is_timer (new_events s (reconcileHWPRequest k fs s)) = []"
  "filter is_timer (new_events s (reconcileSpeedShift k fs s)) = []"
  by (simp_all add: block_defs new_events_def op_trace rmw_events_def Let_def split_def
      split: option.splits)

lemma block_msrs:
  "m \<noteq> MSR_IA32_MISC_ENABLE \<Longrightarrow> msrs (reconcileTurboBoost k fs s) m = msrs s m"
  "m \<noteq> MSR_IA32_POWER_CTL \<Longrightarrow> msrs (reconcileProcHot k fs s) m = msrs s m"
  "m \<noteq> MSR_IA32_HWP_REQUEST \<Longrightarrow> msrs (reconcileHWPRequest k fs s) m = msrs s m"
  "m \<noteq> MSR_IA32_PM_ENABLE \<Longrightarrow> msrs (reconcileSpeedShift k fs s) m = msrs s m"
  by (simp_all add: block_defs op_msrs Let_def split_def split: option.splits)

lemma cycle_continues_blocks:
  "continues s (after_turbo k fs s)"
  "continues s (after_prochot k fs s)"
  "continues s (after_hwp k fs s)"
  "continues s (after_speedshift k fs s)"
proof -
  show 1: "continues s (after_turbo k fs s)" by (rule block_continues)
  show 2: "continues s (after_prochot k fs s)"
    by (rule continues_trans(1)[OF 1 block_continues(2)])
  show 3: "continues s (after_hwp k fs s)"
    by (rule continues_trans(1)[OF 2 block_continues(3)])
  show "continues s (after_speedshift k fs s)"
    by (rule continues_trans(1)[OF 3 block_continues(4)])
qed

lemma cycle_unfold:
  "readConfigAtRuntime k fs s = setTimeoutMS (updateInterval s) (after_speedshift k fs s)"
  by (simp add: readConfigAtRuntime_def Let_def)

lemma cycle_continues: "continues s (readConfigAtRuntime k fs s)"
proof -
  have "continues (after_speedshift k fs s) (readConfigAtRuntime k fs s)"
    by (simp add: cycle_unfold continues_def)
  then show ?thesis by (rule continues_trans(1)[OF cycle_continues_blocks(4)])
qed

lemma cycle_events:
  "new_events s (readConfigAtRuntime k fs s) =
     new_events s (after_turbo k fs s) @
     new_events (after_turbo k fs s) (after_prochot k fs s) @
     new_events (after_prochot k fs s) (after_hwp k fs s) @
     new_events (after_hwp k fs s) (after_speedshift k fs s) @
     [SetTimeoutMS (updateInterval s)]"
proof -
  have last: "continues (after_speedshift k fs s) (readConfigAtRuntime k fs s)"
    by (simp add: cycle_unfold continues_def)
  have e: "new_events (after_speedshift k fs s) (readConfigAtRuntime k fs s) =
      [SetTimeoutMS (updateInterval s)]"
    by (simp add: cycle_unfold new_events_def)
  show ?thesis
    by (simp add: continues_trans(2)[OF cycle_continues_blocks(4) last] e
        continues_trans(2)[OF cycle_continues_blocks(3) block_continues(4)]
        continues_trans(2)[OF cycle_continues_blocks(2) block_continues(3)]
        continues_trans(2)[OF cycle_continues_blocks(1) block_continues(2)])
qed

lemma cycle_guarded: "guarded None (new_events s (readConfigAtRuntime k fs s))"
  unfolding cycle_events
  by (intro guarded_append block_guarded) simp


section \<open>Register operations: idempotence, frame, SpeedShift\<close>

text \<open>
  C7, as amended. Invoking the enable logic of a feature twice in a row, with nothing else
  touching the register in between, produces at most one register write: the second
  invocation reads the value the first one left and never writes, and the two together
  write exactly once when the register did not hold the desired value before, and not at
  all when it did.
\<close>

theorem enable_twice_writes_at_most_once:
  "writes (new_events (enableTurboBoost k s) (enableTurboBoost k (enableTurboBoost k s))) = [] \<and>
   writes (new_events (enableProcHot k s) (enableProcHot k (enableProcHot k s))) = [] \<and>
   writes (new_events (enableSpeedShift k s) (enableSpeedShift k (enableSpeedShift k s))) = [] \<and>
   writes (new_events s (enableTurboBoost k (enableTurboBoost k s))) =
     (if msrs s MSR_IA32_MISC_ENABLE \<noteq> msrs s MSR_IA32_MISC_ENABLE AND kEnableTurboBoostBits k
      then [(MSR_IA32_MISC_ENABLE, msrs s MSR_IA32_MISC_ENABLE AND kEnableTurboBoostBits k)]
      else []) \<and>
   writes (new_events s (enableProcHot k (enableProcHot k s))) =
     (if msrs s MSR_IA32_POWER_CTL \<noteq> msrs s MSR_IA32_POWER_CTL OR kEnableProcHotBit k
      then [(MSR_IA32_POWER_CTL, msrs s MSR_IA32_POWER_CTL OR kEnableProcHotBit k)]
      else []) \<and>
   writes (new_events s (enableSpeedShift k (enableSpeedShift k s))) =
     (if msrs s MSR_IA32_PM_ENABLE \<noteq> kEnableSpeedShiftBit k
      then [(MSR_IA32_PM_ENABLE, kEnableSpeedShiftBit k)]
      else [])"
  by (simp add: new_events_def op_trace rmw_writes writes_append op_msrs)

text \<open>
  C7 as stated fails: with TurboBoost already on (bit 38 of MISC_ENABLE clear), two
  invocations of \<open>enableTurboBoost\<close> write nothing at all, not exactly once.
\<close>

theorem enable_twice_counterexample:
  "length (writes (new_events (boot_object (typical_regs 0) False)
      (enableTurboBoost spec_masks
        (enableTurboBoost spec_masks (boot_object (typical_regs 0) False))))) \<noteq> 1"
  by (simp add: new_events_def op_trace op_msrs rmw_events_def writes_simps spec_masks_def
      boot_object_def typical_regs_def)

text \<open>
  C9. For every starting register value, \<open>enableTurboBoost\<close> and \<open>disableTurboBoost\<close>
  change at most the bits of MISC_ENABLE that their mask selects (the bits the enable mask
  clears, the bits the disable mask sets), \<open>enableProcHot\<close> and \<open>disableProcHot\<close> at
  most the bits of POWER_CTL that theirs selects; every other bit of the register, and
  every other register, is left as it was.
\<close>

theorem feature_ops_frame:
  "(bit (kEnableTurboBoostBits k) n \<longrightarrow>
      bit (msrs (enableTurboBoost k s) MSR_IA32_MISC_ENABLE) n = bit (msrs s MSR_IA32_MISC_ENABLE) n) \<and>
   (\<not> bit (kDisableTurboBoostBits k) n \<longrightarrow>
      bit (msrs (disableTurboBoost k s) MSR_IA32_MISC_ENABLE) n = bit (msrs s MSR_IA32_MISC_ENABLE) n) \<and>
   (\<not> bit (kEnableProcHotBit k) n \<longrightarrow>
      bit (msrs (enableProcHot k s) MSR_IA32_POWER_CTL) n = bit (msrs s MSR_IA32_POWER_CTL) n) \<and>
   (bit (kDisableProcHotBit k) n \<longrightarrow>
      bit (msrs (disableProcHot k s) MSR_IA32_POWER_CTL) n = bit (msrs s MSR_IA32_POWER_CTL) n) \<and>
   (m \<noteq> MSR_IA32_MISC_ENABLE \<longrightarrow>
      msrs (enableTurboBoost k s) m = msrs s m \<and> msrs (disableTurboBoost k s) m = msrs s m) \<and>
   (m \<noteq> MSR_IA32_POWER_CTL \<longrightarrow>
      msrs (enableProcHot k s) m = msrs s m \<and> msrs (disableProcHot k s) m = msrs s m)"
  by (simp add: op_msrs bit_and_iff bit_or_iff)


theorem feature_ops_frame_witness:
  "bit (kEnableTurboBoostBits spec_masks) 1 \<and>
   \<not> bit (kDisableTurboBoostBits spec_masks) 1 \<and>
   \<not> bit (kEnableProcHotBit spec_masks) 1 \<and>
   bit (kDisableProcHotBit spec_masks) 1 \<and>
   MSR_IA32_PERF_CTL \<noteq> MSR_IA32_MISC_ENABLE \<and> MSR_IA32_PERF_CTL \<noteq> MSR_IA32_POWER_CTL \<and>
   bit (msrs (enableTurboBoost spec_masks (boot_object (typical_regs 0) False)) MSR_IA32_MISC_ENABLE) 1
     = bit (msrs (boot_object (typical_regs 0) False) MSR_IA32_MISC_ENABLE) 1 \<and>
   bit (msrs (disableTurboBoost spec_masks (boot_object (typical_regs 0) False)) MSR_IA32_MISC_ENABLE) 1
     = bit (msrs (boot_object (typical_regs 0) False) MSR_IA32_MISC_ENABLE) 1 \<and>
   bit (msrs (enableProcHot spec_masks (boot_object (typical_regs 0) False)) MSR_IA32_POWER_CTL) 1
     = bit (msrs (boot_object (typical_regs 0) False) MSR_IA32_POWER_CTL) 1 \<and>
   bit (msrs (disableProcHot spec_masks (boot_object (typical_regs 0) False)) MSR_IA32_POWER_CTL) 1
     = bit (msrs (boot_object (typical_regs 0) False) MSR_IA32_POWER_CTL) 1 \<and>
   msrs (disableTurboBoost spec_masks (boot_object (typical_regs 0) False)) MSR_IA32_PERF_CTL = 0 \<and>
   msrs (disableProcHot spec_masks (boot_object (typical_regs 0) False)) MSR_IA32_PERF_CTL = 0"
  using feature_ops_frame [of spec_masks 1 "boot_object (typical_regs 0) False" MSR_IA32_PERF_CTL]
  by (simp add: spec_masks_def boot_object_def typical_regs_def bit_simps)





section \<open>The cycle always completes and re-arms its timer\<close>

text \<open>
  C8. Every invocation of \<open>readConfigAtRuntime\<close>, whatever the configuration, the files
  and the registers (absent path, unreadable source, malformed value, refused ProcHot
  request, no HWP support), runs to its end: it keeps the member variables, only adds to
  the trace, and the last thing it does is arm the timer, once, with the current
  \<open>updateInterval\<close>.
\<close>

theorem cycle_completes_and_reschedules:
  "continues s (readConfigAtRuntime k fs s) \<and>
   new_events s (readConfigAtRuntime k fs s) \<noteq> [] \<and>
   last (new_events s (readConfigAtRuntime k fs s)) = SetTimeoutMS (updateInterval s) \<and>
   filter is_timer (new_events s (readConfigAtRuntime k fs s)) = [SetTimeoutMS (updateInterval s)] \<and>
   updateInterval (readConfigAtRuntime k fs s) = updateInterval s"
  by (simp add: cycle_continues cycle_events block_no_timer
      members_fields(9)[OF conjunct1[OF cycle_continues[unfolded continues_def]]])

section \<open>Writes follow reads\<close>

lemma setIfNotEqual_writes:
  "writes (new_events s (snd (setIfNotEqual k cur v m s))) = (if cur \<noteq> v then [(m, v)] else [])"
  by (simp add: new_events_def writes_simps)

lemma adds_guarded_refl: "adds_guarded s s"
  by (simp add: adds_guarded_def new_events_def)

lemma adds_guarded_trans:
  assumes "adds_guarded s t" "adds_guarded t u"
  shows "adds_guarded s u"
proof -
  have a: "trace t = trace s @ new_events s t"
    using assms(1) unfolding adds_guarded_def new_events_def by (metis append_take_drop_id)
  have b: "trace u = trace t @ new_events t u"
    using assms(2) unfolding adds_guarded_def new_events_def by (metis append_take_drop_id)
  have c: "new_events s u = new_events s t @ new_events t u"
    unfolding new_events_def[of s u] b a by simp
  have "take (length (trace s)) (trace u) = trace s"
    unfolding b a by simp
  moreover have "guarded None (new_events s u)"
    unfolding c using assms by (simp add: adds_guarded_def guarded_append)
  ultimately show ?thesis by (simp add: adds_guarded_def)
qed

lemma adds_guarded_ops:
  "adds_guarded t (myLOG f t)"
  "adds_guarded t (setTimeoutMS ms t)"
  "adds_guarded t (emit (Framework f) t)"
  "adds_guarded t (emit CancelTimeout t)"
  "adds_guarded t (snd (rdmsr64 m t))"
  "adds_guarded t (enableTurboBoost k t)"
  "adds_guarded t (disableTurboBoost k t)"
  "adds_guarded t (enableProcHot k t)"
  "adds_guarded t (disableProcHot k t)"
  "adds_guarded t (enableSpeedShift k t)"
  "adds_guarded t (disableSpeedShift k t)"
  "adds_guarded t (restore k m org fmt t)"
  by (simp_all add: adds_guarded_def new_events_def op_trace rmw_events_def)

lemma adds_guarded_update:
  "adds_guarded s t \<Longrightarrow> adds_guarded s (t\<lparr>timerSource := b\<rparr>)"
  "adds_guarded s t \<Longrightarrow> adds_guarded s (t\<lparr>hwpEnableOnceSet := b\<rparr>)"
  by (simp_all add: adds_guarded_def new_events_def)

lemmas adds_guarded_intros =
  adds_guarded_trans[OF _ adds_guarded_ops(1)] adds_guarded_trans[OF _ adds_guarded_ops(2)]
  adds_guarded_trans[OF _ adds_guarded_ops(3)] adds_guarded_trans[OF _ adds_guarded_ops(4)]
  adds_guarded_trans[OF _ adds_guarded_ops(5)] adds_guarded_trans[OF _ adds_guarded_ops(6)]
  adds_guarded_trans[OF _ adds_guarded_ops(7)] adds_guarded_trans[OF _ adds_guarded_ops(8)]
  adds_guarded_trans[OF _ adds_guarded_ops(9)] adds_guarded_trans[OF _ adds_guarded_ops(10)]
  adds_guarded_trans[OF _ adds_guarded_ops(11)] adds_guarded_trans[OF _ adds_guarded_ops(12)]
  adds_guarded_update

lemma start_features_adds: "adds_guarded s (start_features k s)"
  by (auto simp add: start_features_def Let_def intro!: adds_guarded_intros adds_guarded_refl)

lemma start_adds: "adds_guarded s (snd (start k h s))"
  by (auto simp add: start_def Let_def intro!: adds_guarded_intros adds_guarded_refl
      adds_guarded_trans[OF _ start_features_adds])

lemma init_adds: "adds_guarded s (snd (init h p s))"
  by (simp add: adds_guarded_def new_events_def init_def init_snapshot_def init_properties_def
      Let_def split_def split: option.splits)

lemma stop_adds: "adds_guarded s (stop k s)"
  by (auto simp add: stop_def Let_def intro!: adds_guarded_intros adds_guarded_refl)


lemma hwp_block_equal:
  assumes "hwpRequestConfigPath s = Some path" "fs path = Some content"
    "hexToInt (take 10 content) = msrs s MSR_IA32_HWP_REQUEST"
  shows "writes (new_events s (reconcileHWPRequest k fs s)) = []"
  using assms by (simp add: reconcileHWPRequest_def new_events_def writes_simps Let_def split_def)


lemma written_empty: "writes es = [] \<Longrightarrow> written es = {}"
  by (simp add: written_def)

lemma cycle_written:
  "written (new_events s (readConfigAtRuntime k fs s)) =
     written (new_events s (after_turbo k fs s)) \<union>
     written (new_events (after_turbo k fs s) (after_prochot k fs s)) \<union>
     written (new_events (after_prochot k fs s) (after_hwp k fs s)) \<union>
     written (new_events (after_hwp k fs s) (after_speedshift k fs s))"
  by (simp add: cycle_events written_append written_simps Un_assoc)

lemma cycle_hwp_equal:
  assumes "hwpRequestConfigPath s = Some path" "fs path = Some content"
    "hexToInt (take 10 content) = msrs s MSR_IA32_HWP_REQUEST"
  shows "MSR_IA32_HWP_REQUEST \<notin> written (new_events s (readConfigAtRuntime k fs s))"
proof -
  have "written (new_events (after_prochot k fs s) (after_hwp k fs s)) = {}"
    by (rule written_empty, rule hwp_block_equal[where path = path and content = content])
       (simp_all add: assms block_msrs)
  then show ?thesis
    using block_written(1)[of s k fs] block_written(2)[of "after_turbo k fs s" k fs]
      block_written(4)[of "after_hwp k fs s" k fs]
    by (auto simp add: cycle_written)
qed

text \<open>
  C4. \<open>setIfNotEqual\<close> writes exactly when the value it is given as current differs from
  the expected one, and returns whether it wrote. Every register write that \<open>init\<close>,
  \<open>start\<close>, a cycle or \<open>stop\<close> performs comes right after a read of the same register that
  returned a value different from the one written. In particular, when the HWP request parsed from
  the file equals the content of HWP_REQUEST, the cycle does not write that register.
\<close>

theorem writes_only_after_differing_read:
  "fst (setIfNotEqual k cur v m s) = (writes (new_events s (snd (setIfNotEqual k cur v m s))) \<noteq> []) \<and>
   writes (new_events s (snd (setIfNotEqual k cur v m s))) = (if cur \<noteq> v then [(m, v)] else []) \<and>
   guarded None (new_events s (snd (init h p s))) \<and>
   guarded None (new_events s (snd (start k h s))) \<and>
   guarded None (new_events s (readConfigAtRuntime k fs s)) \<and>
   guarded None (new_events s (stop k s)) \<and>
   (hwpRequestConfigPath s = Some path \<and> fs path = Some content \<and>
    hexToInt (take 10 content) = msrs s MSR_IA32_HWP_REQUEST \<longrightarrow>
      MSR_IA32_HWP_REQUEST \<notin> written (new_events s (readConfigAtRuntime k fs s)))"
  using init_adds[of s h p] start_adds[of s k h] stop_adds[of s k]
  by (simp add: setIfNotEqual_writes adds_guarded_def cycle_guarded cycle_hwp_equal)

theorem writes_only_after_differing_read_witness:
  "hwpRequestConfigPath (hwp_object 0x1A2B3C) = Some ''/tmp/hwp_request'' \<and>
   one_file ''/tmp/hwp_request'' ''1A2B3C'' ''/tmp/hwp_request'' = Some ''1A2B3C'' \<and>
   hexToInt (take 10 ''1A2B3C'') = msrs (hwp_object 0x1A2B3C) MSR_IA32_HWP_REQUEST \<and>
   MSR_IA32_HWP_REQUEST \<notin> written (new_events (hwp_object 0x1A2B3C)
     (readConfigAtRuntime spec_masks (one_file ''/tmp/hwp_request'' ''1A2B3C'') (hwp_object 0x1A2B3C))) \<and>
   writes (new_events (hwp_object 0x1A2B3C)
     (readConfigAtRuntime spec_masks (one_file ''/tmp/hwp_request'' ''1A2B3C'') (hwp_object 0x1A2B3C))) = []"
  using writes_only_after_differing_read
    [where s = "hwp_object 0x1A2B3C" and fs = "one_file ''/tmp/hwp_request'' ''1A2B3C''"
       and path = "''/tmp/hwp_request''" and content = "''1A2B3C''" and k = spec_masks]
  by (simp add: concrete_defs lifecycle_defs block_defs Let_def split_def new_events_def
      writes_simps hexToInt_def hexDigit_def ERANGE_def)

section \<open>The HWP request: bounded read, malformed content\<close>







text \<open>
  Why the amended statement has no overflow case: within the 10 bytes read the value stays
  below 16 ^ 10, so it cannot overflow. And what a longer source does: when its first 10
  bytes parse (to anything but the value of \<open>ERANGE\<close>), HWP_REQUEST ends up holding
  their value.
\<close>

lemma hexDigit_bound: "hexDigit c = Some d \<Longrightarrow> d < 16"
  by (auto simp add: hexDigit_def Let_def split: if_splits)

lemma hexValue_bound: "hexValue acc h = Some n \<Longrightarrow> n < (acc + 1) * 16 ^ length h"
proof (induction h arbitrary: acc n)
  case Nil
  then show ?case by simp
next
  case (Cons c cs)
  from Cons.prems obtain d where d: "hexDigit c = Some d"
    and rest: "hexValue (16 * acc + d) cs = Some n"
    by (auto split: option.splits)
  have "n < (16 * acc + d + 1) * 16 ^ length cs" using Cons.IH[OF rest] .
  also have "\<dots> \<le> (16 * acc + 16) * 16 ^ length cs"
    using hexDigit_bound[OF d] by (intro mult_right_mono) simp_all
  also have "\<dots> = (acc + 1) * 16 ^ length (c # cs)" by (simp add: algebra_simps)
  finally show ?case .
qed

lemma no_overflow_within_ten_bytes:
  assumes "length h \<le> 10" "hexValue 0 h = Some n"
  shows "n < 2 ^ 63"
proof -
  have "n < 16 ^ length h" using hexValue_bound[OF assms(2)] by simp
  also have "(16::nat) ^ length h \<le> 16 ^ 10" using assms(1) by (intro power_increasing) simp_all
  also have "(16::nat) ^ 10 < 2 ^ 63" by simp
  finally show ?thesis .
qed

lemma cycle_hwp_prefix_written:
  assumes "supportedHWP s" "hwpRequestConfigPath s = Some path" "fs path = Some content"
    "hexToInt (take 10 content) \<noteq> ERANGE"
  shows "msrs (readConfigAtRuntime k fs s) MSR_IA32_HWP_REQUEST = hexToInt (take 10 content)"
proof -
  have pre: "supportedHWP (after_prochot k fs s)"
    "hwpRequestConfigPath (after_prochot k fs s) = Some path"
    by (simp_all add: assms)
  have "msrs (after_hwp k fs s) MSR_IA32_HWP_REQUEST = hexToInt (take 10 content)"
    using pre assms(3,4)
    by (simp add: reconcileHWPRequest_def Let_def split_def hw_store_simps)
  then show ?thesis
    by (simp add: cycle_unfold block_msrs)
qed

lemmas eval_defs = concrete_defs lifecycle_defs block_defs Let_def split_def op_trace op_msrs
  rmw_events_def new_events_def writes_simps hw_store_simps

section \<open>The SpeedShift latch\<close>

text \<open>
  What holds of the latch: a cycle never changes \<open>hwpEnableOnceSet\<close>; \<open>start\<close> sets it
  when it enables SpeedShift; and once it is set no cycle writes PM_ENABLE.
\<close>

lemma run_cycles_continues: "continues s (run_cycles k fss s)"
proof (induction fss arbitrary: s)
  case Nil
  show ?case by (simp add: continues_refl)
next
  case (Cons fs fss)
  show ?case
    using continues_trans(1)[OF cycle_continues Cons.IH] by simp
qed

lemma run_cycles_members: "members (run_cycles k fss s) = members s"
  using run_cycles_continues[of s k fss] by (simp add: continues_def)

lemma cycles_keep_latch: "hwpEnableOnceSet (run_cycles k fss s) = hwpEnableOnceSet s"
  by (rule members_fields(11)[OF run_cycles_members])

lemma start_features_latches:
  "supportedHWP s \<Longrightarrow> enableIntelSpeedShift s \<Longrightarrow> hwpEnableOnceSet (start_features k s)"
  by (simp add: start_features_def Let_def)

lemma latched_cycle_no_pm_enable_write:
  assumes "hwpEnableOnceSet s"
  shows "MSR_IA32_PM_ENABLE \<notin> written (new_events s (readConfigAtRuntime k fs s))"
proof -
  have "hwpEnableOnceSet (after_hwp k fs s)" using assms by simp
  then have "reconcileSpeedShift k fs (after_hwp k fs s) = after_hwp k fs s"
    by (simp add: reconcileSpeedShift_def)
  then have "written (new_events (after_hwp k fs s) (after_speedshift k fs s)) = {}"
    by (simp add: new_events_def written_simps)
  then show ?thesis
    using block_written(1)[of s k fs] block_written(2)[of "after_turbo k fs s" k fs]
      block_written(3)[of "after_prochot k fs s" k fs]
    by (auto simp add: cycle_written)
qed

text \<open>
  C1 says that once an enable attempt has been made the latch is set and later cycles
  issue no further PM_ENABLE writes. The cycle tests the latch but, unlike \<open>start\<close>,
  never sets it. On an HWP machine where \<open>start\<close> did not enable SpeedShift, with the
  runtime file reading 1, then 0, then 1: the first cycle writes 1, the second cycle
  writes 0 (which the processor ignores, so the third finds the bit set and writes
  nothing), and the latch is still false at the end.
\<close>

theorem speedshift_cycle_writes_after_enable:
  "supportedHWP speedshift_start \<and>
   speedShiftPath speedshift_start = Some ''/tmp/speedshift'' \<and>
   \<not> hwpEnableOnceSet speedshift_start \<and>
   writes (new_events speedshift_start
     (run_cycles spec_masks [one_file ''/tmp/speedshift'' ''1''] speedshift_start)) =
     [(MSR_IA32_PM_ENABLE, 1)] \<and>
   \<not> hwpEnableOnceSet
     (run_cycles spec_masks [one_file ''/tmp/speedshift'' ''1''] speedshift_start) \<and>
   writes (new_events speedshift_start
     (run_cycles spec_masks
        [one_file ''/tmp/speedshift'' ''1'', one_file ''/tmp/speedshift'' ''0''] speedshift_start)) =
     [(MSR_IA32_PM_ENABLE, 1), (MSR_IA32_PM_ENABLE, 0)] \<and>
   writes (new_events speedshift_start
     (run_cycles spec_masks
        [one_file ''/tmp/speedshift'' ''1'', one_file ''/tmp/speedshift'' ''0'',
         one_file ''/tmp/speedshift'' ''1''] speedshift_start)) =
     [(MSR_IA32_PM_ENABLE, 1), (MSR_IA32_PM_ENABLE, 0)] \<and>
   \<not> hwpEnableOnceSet (run_cycles spec_masks
        [one_file ''/tmp/speedshift'' ''1'', one_file ''/tmp/speedshift'' ''0'',
         one_file ''/tmp/speedshift'' ''1''] speedshift_start)"
  by (simp add: speedshift_start_def eval_defs)

section \<open>The ProcHot guard\<close>

text \<open>
  What holds of the guard: at start, with TurboBoost requested on and ProcHot requested
  off, POWER_CTL is neither written nor changed, and the refusal is logged. At run time
  the test is on \<open>misc AND kEnableTurboBoostBits\<close>, which does not depend on any bit that
  the enable mask clears: flipping the turbo bit of MISC_ENABLE does not change the
  outcome of the test.
\<close>

lemma start_guard_keeps_prochot:
  assumes "enableIntelTurboBoost s" "\<not> enableIntelProcHot s"
  shows "msrs (start_features k s) MSR_IA32_POWER_CTL = msrs s MSR_IA32_POWER_CTL"
    and "MSR_IA32_POWER_CTL \<notin> written (new_events s (start_features k s))"
    and "Log ''start: cannot deactivate PROCHOT while turboboost is active!''
           \<in> set (new_events s (start_features k s))"
  using assms
  by (simp_all add: start_features_def Let_def op_msrs op_trace new_events_def rmw_events_def
      written_simps)

lemma prochot_guard_ignores_turbo_bit:
  assumes "\<not> bit (kEnableTurboBoostBits k) i"
  shows "(misc XOR push_bit i 1) AND kEnableTurboBoostBits k = misc AND kEnableTurboBoostBits k"
proof (rule bit_eqI)
  fix n
  show "bit ((misc XOR push_bit i 1) AND kEnableTurboBoostBits k) n =
        bit (misc AND kEnableTurboBoostBits k) n"
    using assms by (cases "n = i") (auto simp add: bit_and_iff bit_xor_iff bit_push_bit_iff bit_1_iff bit_exp_iff)
qed

text \<open>
  C2 says that a runtime request to disable ProcHot is dropped and logged while TurboBoost
  is enabled. With TurboBoost enabled (bit 38 of MISC_ENABLE clear, the register equal to
  the stored original under the enable mask, and enabled by \<open>start\<close>), ProcHot on, and the
  ProcHot file reading 0, the cycle clears the ProcHot bit of POWER_CTL and logs no
  refusal.
\<close>

theorem prochot_off_while_turbo_on:
  "ProcHotPath prochot_start = Some ''/tmp/prochot'' \<and>
   msrs prochot_start MSR_IA32_MISC_ENABLE AND kDisableTurboBoostBits spec_masks = 0 \<and>
   msrs prochot_start MSR_IA32_MISC_ENABLE =
     org_MSR_IA32_MISC_ENABLE prochot_start AND kEnableTurboBoostBits spec_masks \<and>
   enableIntelTurboBoost prochot_start \<and>
   msrs prochot_start MSR_IA32_POWER_CTL = 0x24005B \<and>
   writes (new_events prochot_start
     (readConfigAtRuntime spec_masks (one_file ''/tmp/prochot'' ''0'') prochot_start)) =
     [(MSR_IA32_POWER_CTL, 0x24005A)] \<and>
   msrs (readConfigAtRuntime spec_masks (one_file ''/tmp/prochot'' ''0'') prochot_start)
     MSR_IA32_POWER_CTL = 0x24005A \<and>
   Log ''readConfigAtRuntime: Cannot disable PROCHOT while turboboost is active!'' \<notin>
     set (new_events prochot_start
       (readConfigAtRuntime spec_masks (one_file ''/tmp/prochot'' ''0'') prochot_start))"
  by (simp add: prochot_start_def eval_defs)

section \<open>Snapshot and restore\<close>

text \<open>
  What holds of the restore: \<open>init\<close> stores MISC_ENABLE, PERF_CTL, POWER_CTL and
  HWP_REQUEST; \<open>start\<close> and the cycles keep the stored values; \<open>stop\<close> writes them back,
  so these registers end as they were before \<open>init\<close> (HWP_REQUEST when HWP is
  supported). \<open>org_MSR_IA32_PM_ENABLE\<close> is never assigned: with HWP supported, what
  \<open>stop\<close> restores PM_ENABLE from is whatever that member held before \<open>init\<close>.
\<close>

lemma stop_msrs:
  "msrs (stop k s) =
     (if supportedHWP s
      then (msrs s)(MSR_IA32_POWER_CTL := org_MSR_IA32_POWER_CTL s,
                    MSR_IA32_MISC_ENABLE := org_MSR_IA32_MISC_ENABLE s,
                    MSR_IA32_PERF_CTL := org_MSR_IA32_PERF_CTL s,
                    MSR_IA32_PM_ENABLE :=
                      org_MSR_IA32_PM_ENABLE s OR
                      (msrs s MSR_IA32_PM_ENABLE AND kEnableSpeedShiftBit k),
                    MSR_IA32_HWP_REQUEST := org_HWPRequest s)
      else (msrs s)(MSR_IA32_POWER_CTL := org_MSR_IA32_POWER_CTL s,
                    MSR_IA32_MISC_ENABLE := org_MSR_IA32_MISC_ENABLE s,
                    MSR_IA32_PERF_CTL := org_MSR_IA32_PERF_CTL s))"
  by (simp add: stop_def Let_def op_msrs hw_store_simps)

lemma init_succeeds_iff:
  "fst (init h p s) \<longleftrightarrow>
     \<not> (kernelUnsupported h \<and> \<not> bootargBetaSet h) \<and>
     \<not> (bootarg_s h \<or> bootarg_x h \<or> bootargOffSet h) \<and> superInitOk h"
  by (simp add: init_def Let_def)

lemma init_snapshot_proj:
  "msrs (init_snapshot s) = msrs s"
  "supportedHWP (init_snapshot s) = supportedHWP s"
  "org_MSR_IA32_PM_ENABLE (init_snapshot s) = org_MSR_IA32_PM_ENABLE s"
  "org_MSR_IA32_MISC_ENABLE (init_snapshot s) = msrs s MSR_IA32_MISC_ENABLE"
  "org_MSR_IA32_PERF_CTL (init_snapshot s) = msrs s MSR_IA32_PERF_CTL"
  "org_MSR_IA32_POWER_CTL (init_snapshot s) = msrs s MSR_IA32_POWER_CTL"
  "org_HWPRequest (init_snapshot s) = msrs s MSR_IA32_HWP_REQUEST"
  by (simp_all add: init_snapshot_def Let_def split_def)

lemma init_properties_proj:
  "msrs (init_properties p s) = msrs s"
  "supportedHWP (init_properties p s) = supportedHWP s"
  "org_MSR_IA32_PM_ENABLE (init_properties p s) = org_MSR_IA32_PM_ENABLE s"
  by (simp_all add: init_properties_def Let_def split: option.splits)

lemma init_keeps:
  "msrs (snd (init h p s)) = msrs s"
  "supportedHWP (snd (init h p s)) = supportedHWP s"
  "org_MSR_IA32_PM_ENABLE (snd (init h p s)) = org_MSR_IA32_PM_ENABLE s"
  by (simp_all add: init_def Let_def init_snapshot_proj init_properties_proj)

lemma init_captures:
  assumes "fst (init h p s)"
  shows "org_MSR_IA32_MISC_ENABLE (snd (init h p s)) = msrs s MSR_IA32_MISC_ENABLE"
    and "org_MSR_IA32_PERF_CTL (snd (init h p s)) = msrs s MSR_IA32_PERF_CTL"
    and "org_MSR_IA32_POWER_CTL (snd (init h p s)) = msrs s MSR_IA32_POWER_CTL"
    and "org_HWPRequest (snd (init h p s)) = msrs s MSR_IA32_HWP_REQUEST"
  using assms[unfolded init_succeeds_iff]
  by (auto simp add: init_def Let_def init_snapshot_proj init_properties_proj)

lemma start_keeps_originals:
  "org_MSR_IA32_MISC_ENABLE (snd (start k h s)) = org_MSR_IA32_MISC_ENABLE s"
  "org_MSR_IA32_PERF_CTL (snd (start k h s)) = org_MSR_IA32_PERF_CTL s"
  "org_MSR_IA32_POWER_CTL (snd (start k h s)) = org_MSR_IA32_POWER_CTL s"
  "org_MSR_IA32_PM_ENABLE (snd (start k h s)) = org_MSR_IA32_PM_ENABLE s"
  "org_HWPRequest (snd (start k h s)) = org_HWPRequest s"
  "supportedHWP (snd (start k h s)) = supportedHWP s"
  by (simp_all add: start_def start_features_def Let_def)

lemma run_cycles_keeps_originals:
  "org_MSR_IA32_MISC_ENABLE (run_cycles k fss s) = org_MSR_IA32_MISC_ENABLE s"
  "org_MSR_IA32_PERF_CTL (run_cycles k fss s) = org_MSR_IA32_PERF_CTL s"
  "org_MSR_IA32_POWER_CTL (run_cycles k fss s) = org_MSR_IA32_POWER_CTL s"
  "org_MSR_IA32_PM_ENABLE (run_cycles k fss s) = org_MSR_IA32_PM_ENABLE s"
  "org_HWPRequest (run_cycles k fss s) = org_HWPRequest s"
  "supportedHWP (run_cycles k fss s) = supportedHWP s"
  by (rule members_fields[OF run_cycles_members])+

lemma captured_registers_restored:
  assumes ok: "fst (init h p s)"
    and m: "m = MSR_IA32_MISC_ENABLE \<or> m = MSR_IA32_PERF_CTL \<or> m = MSR_IA32_POWER_CTL \<or>
         (m = MSR_IA32_HWP_REQUEST \<and> supportedHWP s)"
  shows "msrs (stop k (run_cycles k fss (snd (start k h (snd (init h p s)))))) m = msrs s m"
proof -
  let ?t = "run_cycles k fss (snd (start k h (snd (init h p s))))"
  have org: "org_MSR_IA32_MISC_ENABLE ?t = msrs s MSR_IA32_MISC_ENABLE"
    "org_MSR_IA32_PERF_CTL ?t = msrs s MSR_IA32_PERF_CTL"
    "org_MSR_IA32_POWER_CTL ?t = msrs s MSR_IA32_POWER_CTL"
    "org_HWPRequest ?t = msrs s MSR_IA32_HWP_REQUEST"
    "supportedHWP ?t = supportedHWP s"
    by (simp_all add: run_cycles_keeps_originals start_keeps_originals init_captures[OF ok]
        init_keeps)
  from m show ?thesis
    by (elim disjE conjE) (simp_all add: stop_msrs org)
qed

lemma pm_enable_after_stop:
  assumes "supportedHWP s"
  shows "msrs (stop k (run_cycles k fss (snd (start k h (snd (init h p s)))))) MSR_IA32_PM_ENABLE =
         org_MSR_IA32_PM_ENABLE s OR
         (msrs (run_cycles k fss (snd (start k h (snd (init h p s))))) MSR_IA32_PM_ENABLE AND
          kEnableSpeedShiftBit k)"
    and "supportedHWP (snd (init h p s))"
  using assms
  by (simp_all add: stop_msrs run_cycles_keeps_originals start_keeps_originals init_keeps)

text \<open>
  C3 says that every managed register, PM_ENABLE included when HWP is supported, is
  captured at startup, and that shutdown writes the captured value back only when the
  register differs from it. On an HWP machine where PM_ENABLE holds 1 before the driver
  loads, the stored original is still 0 after \<open>init\<close> and \<open>start\<close>: the register was not
  captured. The register still holds its original value 1 when \<open>stop\<close> runs, and \<open>stop\<close>
  writes 0 to it. (It holds 1 afterwards because the processor ignores that write.)
\<close>

theorem pm_enable_not_captured:
  "msrs (boot_object (typical_regs 1) True) MSR_IA32_PM_ENABLE = 1 \<and>
   org_MSR_IA32_PM_ENABLE hwp_enabled_start = 0 \<and>
   msrs hwp_enabled_start MSR_IA32_PM_ENABLE = 1 \<and>
   msrs (run_cycles spec_masks [no_files] hwp_enabled_start) MSR_IA32_PM_ENABLE = 1 \<and>
   writes (new_events (run_cycles spec_masks [no_files] hwp_enabled_start)
     (stop spec_masks (run_cycles spec_masks [no_files] hwp_enabled_start))) =
     [(MSR_IA32_PM_ENABLE, 0)] \<and>
   msrs (stop spec_masks (run_cycles spec_masks [no_files] hwp_enabled_start))
     MSR_IA32_PM_ENABLE = 1"
  by (simp add: hwp_enabled_start_def eval_defs)

section \<open>Unreadable sources\<close>

text \<open>
  What holds: SpeedShift takes no action on a null buffer. TurboBoost and ProcHot read a
  null buffer as a request that is not '1': with TurboBoost on in the sense of the cycle's
  own test, an unreadable file sets the bits of the disable mask.
\<close>

lemma speedshift_absent_source_no_action:
  assumes "speedShiftPath s = Some path" "fs path = None"
  shows "writes (new_events s (reconcileSpeedShift k fs s)) = []"
    and "msrs (reconcileSpeedShift k fs s) = msrs s"
  using assms
  by (simp_all add: reconcileSpeedShift_def Let_def split_def new_events_def writes_simps)

lemma turbo_absent_source_is_disable_request:
  assumes "turboBoostPath s = Some path" "fs path = None"
    "msrs s MSR_IA32_MISC_ENABLE = org_MSR_IA32_MISC_ENABLE s AND kEnableTurboBoostBits k"
  shows "msrs (reconcileTurboBoost k fs s) MSR_IA32_MISC_ENABLE =
         msrs s MSR_IA32_MISC_ENABLE OR kDisableTurboBoostBits k"
  using assms
  by (simp add: reconcileTurboBoost_def Let_def split_def op_msrs requestsEnable_def)

text \<open>
  C5 says that an unreadable source causes no register write for any boolean feature. With
  TurboBoost and ProcHot on and both runtime files unreadable, one cycle writes
  MISC_ENABLE (setting bit 38, TurboBoost off) and POWER_CTL (clearing bit 0, ProcHot
  off).
\<close>

theorem absent_source_disables:
  "turboBoostPath both_paths_start = Some ''/tmp/turbo'' \<and>
   ProcHotPath both_paths_start = Some ''/tmp/prochot'' \<and>
   msrs both_paths_start MSR_IA32_MISC_ENABLE = 0x850089 \<and>
   msrs both_paths_start MSR_IA32_POWER_CTL = 0x24005B \<and>
   ReadFile ''/tmp/turbo'' 1 None \<in> set (new_events both_paths_start
     (readConfigAtRuntime spec_masks no_files both_paths_start)) \<and>
   writes (new_events both_paths_start (readConfigAtRuntime spec_masks no_files both_paths_start)) =
     [(MSR_IA32_MISC_ENABLE, 0x4000850089), (MSR_IA32_POWER_CTL, 0x24005A)]"
  by (simp add: both_paths_start_def eval_defs)

end
